theory Spec2Isabelle
  imports Main "HOL-Library.AList" "HOL-Library.Sublist"
begin

section \<open>Data model\<close>

text \<open>
  Python exceptions that travel through the handlers of \<^verbatim>\<open>main.py\<close>.
  \<open>HTTPException\<close> carries a status code and a detail; \<open>ValueError\<close> is raised by
  \<^verbatim>\<open>create_faiss_index\<close>, \<^verbatim>\<open>create_pdf_chain\<close> and by the JSON and pydantic
  validation of the chat history (both subclasses of ValueError); \<open>LibraryError\<close> is any
  other exception raised inside an external library (PyPDF2, the embedding provider,
  the generation provider), carrying its message.
\<close>

datatype exn = HTTPException nat string | ValueError string | LibraryError string

text \<open>\<^verbatim>\<open>class Message(BaseModel)\<close>\<close>

record Message =
  role :: string
  content :: string

text \<open>
  The value stored in \<^verbatim>\<open>vectorstore_cache[file_id]\<close>: the dict with the keys
  \<^verbatim>\<open>'text'\<close>, \<^verbatim>\<open>'file_name'\<close> and \<^verbatim>\<open>'text_length'\<close> (the key
  \<^verbatim>\<open>'text'\<close> is the field \<open>cached_text\<close>).
\<close>

record cache_entry =
  cached_text :: string
  file_name :: string
  text_length :: nat

text \<open>\<^verbatim>\<open>langchain_core.documents.Document(page_content=chunk)\<close>\<close>

datatype Document = Document (page_content: string)

text \<open>
  The process state. \<open>vectorstore_cache\<close> is the module-level dict; a Python dict keeps
  insertion order, so it is an association list with distinct keys, updated with
  \<^const>\<open>AList.update\<close> (in place for a present key, appended for a new one) and
  \<^const>\<open>AList.delete\<close>. \<open>from_documents_calls\<close> records the effect of the program on
  the embedding provider: every call of \<^verbatim>\<open>FAISS.from_documents\<close>, in order, with the
  documents it was given.
\<close>

record state =
  vectorstore_cache :: "(string \<times> cache_entry) list"
  from_documents_calls :: "Document list list"

text \<open>
  The external collaborators, taken as parameters. \<open>'idx\<close> is the type of a FAISS
  vector store.
  \<^item> \<open>OPENAI_API_KEY\<close>: the constant of \<^verbatim>\<open>config.settings\<close>;
  \<^item> \<open>PdfReader\<close>: PyPDF2 on the uploaded bytes: the \<^verbatim>\<open>extract_text()\<close> of every
    page in order, or the exception raised while reading;
  \<^item> \<open>split_text\<close>: \<^verbatim>\<open>RecursiveCharacterTextSplitter(chunk_size=1000,
    chunk_overlap=200).split_text\<close>;
  \<^item> \<open>from_documents\<close>: \<^verbatim>\<open>FAISS.from_documents(docs, embeddings)\<close>;
  \<^item> \<open>ainvoke\<close>: running the retrieval chain on a vector store with the retriever's
    \<open>k\<close> and the input: the result dict, or the exception raised;
  \<^item> \<open>loads_messages\<close>: \<^verbatim>\<open>json.loads\<close> followed by \<^verbatim>\<open>Message(**msg)\<close> for
    every element.
\<close>

record 'idx env =
  OPENAI_API_KEY :: "string option"
  PdfReader :: "string \<Rightarrow> exn + string list"
  split_text :: "string \<Rightarrow> string list"
  from_documents :: "Document list \<Rightarrow> exn + 'idx"
  ainvoke :: "'idx \<Rightarrow> nat \<Rightarrow> string \<Rightarrow> exn + (string \<rightharpoonup> string)"
  loads_messages :: "string \<Rightarrow> exn + Message list"

text \<open>The retriever of \<^verbatim>\<open>get_retriever\<close>: a vector store and its \<^verbatim>\<open>search_kwargs\<close>.\<close>

record 'idx retriever =
  vectorstore :: 'idx
  search_k :: nat

text \<open>The JSON bodies returned by \<^verbatim>\<open>index_pdf\<close> and \<^verbatim>\<open>cache_stats\<close>.\<close>

record index_response =
  resp_file_id :: string
  resp_file_name :: string
  resp_text_length :: "nat option"
  already_indexed :: bool

record stats_response =
  indexed_files :: nat
  files :: "(string \<times> string \<times> nat) list"


section \<open>Strings\<close>

definition NL :: string where
  "NL = [CHR 0x0A]"

text \<open>\<^verbatim>\<open>sep.join(lines)\<close>\<close>

fun join :: "string \<Rightarrow> string list \<Rightarrow> string" where
  "join sep [] = []"
| "join sep [x] = x"
| "join sep (x # y # ys) = x @ sep @ join sep (y # ys)"

text \<open>
  \<^verbatim>\<open>str.isspace\<close> on the characters a \<^typ>\<open>char\<close> can hold (code points below 256),
  and \<^verbatim>\<open>str.strip()\<close>.
\<close>

definition isspace :: "char \<Rightarrow> bool" where
  "isspace c = (of_char c \<in> {9, 10, 11, 12, 13, 28, 29, 30, 31, 32, 133, 160 :: nat})"

definition strip :: "string \<Rightarrow> string" where
  "strip s = rev (dropWhile isspace (rev (dropWhile isspace s)))"

text \<open>\<^verbatim>\<open>str(n)\<close> of a non-negative integer, as in an f-string.\<close>

fun str_nat :: "nat \<Rightarrow> string" where
  "str_nat n = (if n < 10 then [''0123456789'' ! n]
                else str_nat (n div 10) @ [''0123456789'' ! (n mod 10)])"

declare str_nat.simps [simp del]

text \<open>
  \<^verbatim>\<open>str(e)\<close>: the message of a plain exception; for an \<open>HTTPException\<close> the
  rendering of Starlette, \<^verbatim>\<open>f"{status_code}: {detail}"\<close>.
\<close>

fun str_exn :: "exn \<Rightarrow> string" where
  "str_exn (HTTPException c d) = str_nat c @ '': '' @ d"
| "str_exn (ValueError m) = m"
| "str_exn (LibraryError m) = m"


section \<open>models/pdf_processor.py\<close>

text \<open>The loop body of \<^verbatim>\<open>extract_text_from_pdf\<close>: \<^verbatim>\<open>if content: text += content + "\n"\<close>.\<close>

definition add_page :: "string \<Rightarrow> string \<Rightarrow> string" where
  "add_page txt c = (if c \<noteq> [] then txt @ c @ NL else txt)"

definition extract_text_from_pdf :: "'idx env \<Rightarrow> string \<Rightarrow> exn + string" where
  "extract_text_from_pdf env file_bytes =
     (case PdfReader env file_bytes of
        Inl e \<Rightarrow> Inl e
      | Inr pages \<Rightarrow> Inr (strip (foldl add_page [] pages)))"


section \<open>models/embeddings_faiss.py\<close>

definition create_faiss_index :: "'idx env \<Rightarrow> string \<Rightarrow> state \<Rightarrow> (exn + 'idx) \<times> state" where
  "create_faiss_index env txt s =
     (if txt = [] then (Inl (ValueError ''Cannot create index from empty text.''), s)
      else let chunks = split_text env txt in
        if chunks = [] then (Inl (ValueError ''Text was too short to be split into chunks.''), s)
        else let docs = map Document chunks in
          (from_documents env docs,
           s\<lparr>from_documents_calls := from_documents_calls s @ [docs]\<rparr>))"

definition get_retriever :: "'idx \<Rightarrow> 'idx retriever" where
  "get_retriever vs = \<lparr>vectorstore = vs, search_k = 3\<rparr>"


section \<open>agents/pdf_chain.py\<close>

text \<open>
  The chain is the retriever together with the fixed model settings and system prompt,
  which are constants handed to the generation provider; it is represented by its
  retriever.
\<close>

definition create_pdf_chain :: "'idx env \<Rightarrow> string \<Rightarrow> state \<Rightarrow> (exn + 'idx retriever) \<times> state" where
  "create_pdf_chain env txt s =
     (if OPENAI_API_KEY env = None \<or> OPENAI_API_KEY env = Some []
      then (Inl (ValueError ''OPENAI_API_KEY not found.''), s)
      else case create_faiss_index env txt s of
             (Inl e, s') \<Rightarrow> (Inl e, s')
           | (Inr vs, s') \<Rightarrow> (Inr (get_retriever vs), s'))"


section \<open>main.py\<close>

definition format_line :: "Message \<Rightarrow> string" where
  "format_line msg =
     (if role msg = ''user'' then ''User'' else ''Assistant'') @ '': '' @ content msg"

definition format_history_for_context :: "Message list \<Rightarrow> string" where
  "format_history_for_context messages =
     (if messages = [] then [] else join NL (map format_line messages))"

text \<open>The \<^verbatim>\<open>full_query\<close> of \<^verbatim>\<open>query\<close>.\<close>

definition full_query :: "Message list \<Rightarrow> string \<Rightarrow> string" where
  "full_query messages q =
     (if messages \<noteq> []
      then ''Previous conversation:'' @ NL @ format_history_for_context messages
           @ NL @ NL @ ''Current question: '' @ q
      else q)"

text \<open>
  The body of the outer \<^verbatim>\<open>try\<close> of \<^verbatim>\<open>index_pdf\<close>; the temporary file only carries
  the uploaded bytes to the PDF reader.
\<close>

definition index_pdf_try ::
  "'idx env \<Rightarrow> string \<Rightarrow> string \<Rightarrow> string \<Rightarrow> state \<Rightarrow> (exn + index_response) \<times> state" where
  "index_pdf_try env file_id file_bytes filename s =
     (if file_bytes = [] then (Inl (HTTPException 400 ''Empty file''), s)
      else case map_of (vectorstore_cache s) file_id of
        Some _ \<Rightarrow>
          (Inr \<lparr>resp_file_id = file_id, resp_file_name = filename,
                resp_text_length = None, already_indexed = True\<rparr>, s)
      | None \<Rightarrow>
          (case extract_text_from_pdf env file_bytes of
             Inl e \<Rightarrow> (Inl e, s)
           | Inr txt \<Rightarrow>
               if txt = []
               then (Inl (HTTPException 400 ''Could not extract text from PDF''), s)
               else
                 (Inr \<lparr>resp_file_id = file_id, resp_file_name = filename,
                       resp_text_length = Some (length txt), already_indexed = False\<rparr>,
                  s\<lparr>vectorstore_cache :=
                      AList.update file_id
                        \<lparr>cached_text = txt, file_name = filename, text_length = length txt\<rparr>
                        (vectorstore_cache s)\<rparr>)))"

text \<open>
  \<^verbatim>\<open>index_pdf\<close>: its handler \<^verbatim>\<open>except Exception\<close> turns every exception of the
  body, the \<open>HTTPException\<close>s it raised itself included, into a 500 whose detail is
  \<^verbatim>\<open>str(e)\<close>.
\<close>

definition index_pdf ::
  "'idx env \<Rightarrow> string \<Rightarrow> string \<Rightarrow> string \<Rightarrow> state \<Rightarrow> (exn + index_response) \<times> state" where
  "index_pdf env file_id file_bytes filename s =
     (case index_pdf_try env file_id file_bytes filename s of
        (Inl e, s') \<Rightarrow> (Inl (HTTPException 500 (str_exn e)), s')
      | (Inr r, s') \<Rightarrow> (Inr r, s'))"

text \<open>The body of the outer \<^verbatim>\<open>try\<close> of \<^verbatim>\<open>query\<close>.\<close>

definition query_try ::
  "'idx env \<Rightarrow> string \<Rightarrow> string \<Rightarrow> string \<Rightarrow> state \<Rightarrow> (exn + string) \<times> state" where
  "query_try env file_id q chat_history s =
     (case map_of (vectorstore_cache s) file_id of
        None \<Rightarrow> (Inl (HTTPException 404 ''File not indexed. Call /index_pdf first.''), s)
      | Some cached \<Rightarrow>
          (case loads_messages env chat_history of
             Inl (ValueError m) \<Rightarrow>
               (Inl (HTTPException 400 (''Invalid chat_history: '' @ m)), s)
           | Inl e \<Rightarrow> (Inl e, s)
           | Inr messages \<Rightarrow>
               (case create_pdf_chain env (cached_text cached) s of
                  (Inl e, s') \<Rightarrow> (Inl e, s')
                | (Inr chain, s') \<Rightarrow>
                    (case ainvoke env (vectorstore chain) (search_k chain)
                            (full_query messages q) of
                       Inl e \<Rightarrow> (Inl e, s')
                     | Inr result \<Rightarrow>
                         (Inr (case result ''answer'' of
                                 Some a \<Rightarrow> a
                               | None \<Rightarrow> ''No answer found.''), s')))))"

text \<open>
  \<^verbatim>\<open>query\<close>: \<^verbatim>\<open>except HTTPException: raise\<close> lets an \<open>HTTPException\<close> through, and
  \<^verbatim>\<open>except Exception\<close> turns any other exception into a 500.
\<close>

definition query ::
  "'idx env \<Rightarrow> string \<Rightarrow> string \<Rightarrow> string \<Rightarrow> state \<Rightarrow> (exn + string) \<times> state" where
  "query env file_id q chat_history s =
     (case query_try env file_id q chat_history s of
        (Inl (HTTPException c d), s') \<Rightarrow> (Inl (HTTPException c d), s')
      | (Inl e, s') \<Rightarrow> (Inl (HTTPException 500 (str_exn e)), s')
      | (Inr r, s') \<Rightarrow> (Inr r, s'))"

text \<open>
  The two \<^verbatim>\<open>except\<close> clauses of \<^verbatim>\<open>query\<close> as a function on the exception
  raised in its body.
\<close>

definition query_except :: "exn \<Rightarrow> exn" where
  "query_except e =
     (case e of
        HTTPException c d \<Rightarrow> HTTPException c d
      | _ \<Rightarrow> HTTPException 500 (str_exn e))"

definition delete_from_cache :: "string \<Rightarrow> state \<Rightarrow> (exn + string) \<times> state" where
  "delete_from_cache file_id s =
     (case map_of (vectorstore_cache s) file_id of
        Some info \<Rightarrow>
          (Inr (''Removed '' @ file_name info @ '' from cache''),
           s\<lparr>vectorstore_cache := AList.delete file_id (vectorstore_cache s)\<rparr>)
      | None \<Rightarrow> (Inl (HTTPException 404 ''File not found in cache''), s))"

definition cache_stats :: "state \<Rightarrow> stats_response" where
  "cache_stats s =
     \<lparr>indexed_files = length (vectorstore_cache s),
      files = map (\<lambda>(file_id, info). (file_id, file_name info, text_length info))
                  (vectorstore_cache s)\<rparr>"

definition clear_cache :: "state \<Rightarrow> string \<times> state" where
  "clear_cache s =
     (''Cleared '' @ str_nat (length (vectorstore_cache s)) @ '' files from cache'',
      s\<lparr>vectorstore_cache := []\<rparr>)"


section \<open>The cache invariant\<close>

text \<open>
  The keys of the dict are distinct, a stored text is never empty, and the stored
  \<^verbatim>\<open>text_length\<close> is the length of the stored text.
\<close>

definition cache_ok :: "state \<Rightarrow> bool" where
  "cache_ok s =
     (distinct (map fst (vectorstore_cache s))
      \<and> list_all (\<lambda>(k, e). cached_text e \<noteq> [] \<and> text_length e = length (cached_text e))
           (vectorstore_cache s))"


section \<open>Example collaborators and states\<close>

text \<open>
  A PDF reader that knows three uploads (a blank document, a damaged one, and a document
  of two text pages around an empty page), a splitter that returns the text as a single
  chunk, an index that is the list of its documents, a chain that answers with its input,
  and a history parser that accepts the empty JSON list only.
\<close>

definition pdf_env :: "Document list env" where
  "pdf_env =
     \<lparr>OPENAI_API_KEY = Some ''sk-test'',
      PdfReader = (\<lambda>b. if b = ''%PDF-blank'' then Inr ['''']
                         else if b = ''%PDF-bad'' then Inl (LibraryError ''EOF marker not found'')
                         else Inr [''Hello'', '''', ''world'']),
      split_text = (\<lambda>t. [t]),
      from_documents = (\<lambda>docs. Inr docs),
      ainvoke = (\<lambda>vs k inp. Inr [''answer'' \<mapsto> inp]),
      loads_messages = (\<lambda>h. if h = ''[]'' then Inr [] else Inl (ValueError ''bad json''))\<rparr>"

text \<open>The same collaborators with the embedding provider unavailable.\<close>

definition down_env :: "Document list env" where
  "down_env = pdf_env\<lparr>from_documents := (\<lambda>docs. Inl (LibraryError ''embedding provider unavailable''))\<rparr>"

text \<open>The same collaborators with a chain whose result has no \<^verbatim>\<open>answer\<close> key.\<close>

definition silent_env :: "Document list env" where
  "silent_env = pdf_env\<lparr>ainvoke := (\<lambda>vs k inp. Inr Map.empty)\<rparr>"

definition empty_state :: state where
  "empty_state = \<lparr>vectorstore_cache = [], from_documents_calls = []\<rparr>"

definition hello_entry :: cache_entry where
  "hello_entry = \<lparr>cached_text = ''Hello'' @ NL @ ''world'', file_name = ''a.pdf'', text_length = 11\<rparr>"

definition hello_state :: state where
  "hello_state = \<lparr>vectorstore_cache = [(''doc1'', hello_entry)], from_documents_calls = []\<rparr>"


section \<open>Auxiliary facts\<close>

lemma join_Cons: "join sep (x # xs) = x @ concat (map (\<lambda>y. sep @ y) xs)"
  by (induction xs arbitrary: x) simp_all

lemma str_nat_400: "str_nat 400 = ''400''"
  by (simp add: str_nat.simps)

lemma extract_hello: "extract_text_from_pdf pdf_env ''%PDF-1.4'' = Inr (''Hello'' @ NL @ ''world'')"
  by (simp add: extract_text_from_pdf_def pdf_env_def add_page_def strip_def isspace_def NL_def)

lemma extract_blank: "extract_text_from_pdf pdf_env ''%PDF-blank'' = Inr []"
  by (simp add: extract_text_from_pdf_def pdf_env_def add_page_def strip_def isspace_def NL_def)

lemma update_absent: "map_of al k = None \<Longrightarrow> AList.update k v al = al @ [(k, v)]"
  by (induction al) auto

lemma extract_env_update:
  "extract_text_from_pdf (env\<lparr>split_text := sp, from_documents := fd\<rparr>) b
     = extract_text_from_pdf env b"
  by (simp add: extract_text_from_pdf_def)

lemma get_retriever_k: "search_k (get_retriever vs) = 3 \<and> vectorstore (get_retriever vs) = vs"
  by (simp add: get_retriever_def)

text \<open>\<^verbatim>\<open>index_pdf\<close> with its exception handler applied to every branch.\<close>

lemma index_pdf_unfold:
  "index_pdf env file_id b fname s =
     (if b = [] then (Inl (HTTPException 500 (str_exn (HTTPException 400 ''Empty file''))), s)
      else case map_of (vectorstore_cache s) file_id of
        Some _ \<Rightarrow>
          (Inr \<lparr>resp_file_id = file_id, resp_file_name = fname,
                resp_text_length = None, already_indexed = True\<rparr>, s)
      | None \<Rightarrow>
          (case extract_text_from_pdf env b of
             Inl e \<Rightarrow> (Inl (HTTPException 500 (str_exn e)), s)
           | Inr txt \<Rightarrow>
               if txt = []
               then (Inl (HTTPException 500
                       (str_exn (HTTPException 400 ''Could not extract text from PDF''))), s)
               else
                 (Inr \<lparr>resp_file_id = file_id, resp_file_name = fname,
                       resp_text_length = Some (length txt), already_indexed = False\<rparr>,
                  s\<lparr>vectorstore_cache :=
                      AList.update file_id
                        \<lparr>cached_text = txt, file_name = fname, text_length = length txt\<rparr>
                        (vectorstore_cache s)\<rparr>)))"
  by (simp add: index_pdf_def index_pdf_try_def split: option.splits sum.splits)

lemma index_pdf_calls:
  "from_documents_calls (snd (index_pdf env file_id b fname s)) = from_documents_calls s"
  by (simp add: index_pdf_unfold split: option.splits sum.splits)

lemma create_pdf_chain_cache:
  "create_pdf_chain env txt s = (r, s') \<Longrightarrow> vectorstore_cache s' = vectorstore_cache s"
  by (auto simp add: create_pdf_chain_def create_faiss_index_def Let_def
           split: prod.splits sum.splits if_splits)

lemma query_try_cache:
  "query_try env file_id q h s = (r, s') \<Longrightarrow> vectorstore_cache s' = vectorstore_cache s"
  by (auto simp add: query_try_def dest: create_pdf_chain_cache
           split: prod.splits sum.splits option.splits exn.splits)

lemma query_cache:
  "vectorstore_cache (snd (query env file_id q h s)) = vectorstore_cache s"
  by (auto simp add: query_def dest: query_try_cache
           split: prod.splits sum.splits exn.splits)

text \<open>\<^verbatim>\<open>query\<close> on a cached id, with its handlers applied to every branch.\<close>

lemma query_via_except:
  "query env file_id q h s =
     (case query_try env file_id q h s of
        (Inl e, s') \<Rightarrow> (Inl (query_except e), s')
      | (Inr r, s') \<Rightarrow> (Inr r, s'))"
  by (simp add: query_def query_except_def split: prod.splits sum.splits exn.splits)

lemma query_cached:
  assumes "map_of (vectorstore_cache s) file_id = Some cached"
  shows "query env file_id q h s =
     (case loads_messages env h of
        Inl e \<Rightarrow>
          (Inl (query_except
                  (case e of
                     ValueError m \<Rightarrow> HTTPException 400 (''Invalid chat_history: '' @ m)
                   | _ \<Rightarrow> e)), s)
      | Inr messages \<Rightarrow>
          if OPENAI_API_KEY env = None \<or> OPENAI_API_KEY env = Some []
          then (Inl (HTTPException 500 ''OPENAI_API_KEY not found.''), s)
          else if cached_text cached = []
          then (Inl (HTTPException 500 ''Cannot create index from empty text.''), s)
          else if split_text env (cached_text cached) = []
          then (Inl (HTTPException 500 ''Text was too short to be split into chunks.''), s)
          else
            (case from_documents env (map Document (split_text env (cached_text cached))) of
               Inl e \<Rightarrow> Inl (query_except e)
             | Inr vs \<Rightarrow>
                 (case ainvoke env vs 3 (full_query messages q) of
                    Inl e \<Rightarrow> Inl (query_except e)
                  | Inr result \<Rightarrow>
                      Inr (case result ''answer'' of
                             Some a \<Rightarrow> a
                           | None \<Rightarrow> ''No answer found.'')),
             s\<lparr>from_documents_calls := from_documents_calls s @
                  [map Document (split_text env (cached_text cached))]\<rparr>))"
  using assms
  by (auto simp add: query_via_except query_try_def create_pdf_chain_def create_faiss_index_def
        get_retriever_def query_except_def Let_def
      split: sum.splits exn.splits)

lemma query_fst_text:
  assumes "map_of (vectorstore_cache s) file_id = Some cached"
    and "map_of (vectorstore_cache s2) file_id = Some cached2"
    and "cached_text cached2 = cached_text cached"
  shows "fst (query env file_id q h s2) = fst (query env file_id q h s)"
  by (auto simp add: query_cached [OF assms(1)] query_cached [OF assms(2)] assms(3)
      split: sum.splits)

lemma index_hello:
  "index_pdf pdf_env ''doc1'' ''%PDF-1.4'' ''a.pdf'' empty_state =
     (Inr \<lparr>resp_file_id = ''doc1'', resp_file_name = ''a.pdf'',
           resp_text_length = Some 11, already_indexed = False\<rparr>, hello_state)"
  by (simp add: index_pdf_unfold extract_hello empty_state_def hello_state_def hello_entry_def NL_def)

lemma chain_hello:
  "create_pdf_chain (pdf_env\<lparr>ainvoke := f\<rparr>) (cached_text hello_entry) hello_state =
     (Inr \<lparr>vectorstore = [Document (''Hello'' @ NL @ ''world'')], search_k = 3\<rparr>,
      hello_state\<lparr>from_documents_calls := [[Document (''Hello'' @ NL @ ''world'')]]\<rparr>)"
  by (simp add: create_pdf_chain_def create_faiss_index_def get_retriever_def pdf_env_def
        hello_entry_def hello_state_def NL_def Let_def)


section \<open>The invariant is kept by every operation\<close>

lemma cache_ok_index_pdf:
  assumes "cache_ok s"
  shows "cache_ok (snd (index_pdf env file_id b fname s))"
proof (cases "map_of (vectorstore_cache s) file_id")
  case None
  then have "file_id \<notin> fst ` set (vectorstore_cache s)"
    by (simp add: map_of_eq_None_iff)
  with assms None show ?thesis
    by (auto simp add: index_pdf_unfold cache_ok_def update_absent split: sum.splits)
next
  case (Some e)
  with assms show ?thesis
    by (simp add: index_pdf_unfold)
qed

lemma cache_ok_query:
  "cache_ok s \<Longrightarrow> cache_ok (snd (query env file_id q h s))"
  by (simp add: cache_ok_def query_cache)

lemma cache_ok_delete:
  "cache_ok s \<Longrightarrow> cache_ok (snd (delete_from_cache file_id s))"
proof -
  assume ok: "cache_ok s"
  have "set (AList.delete file_id (vectorstore_cache s)) \<subseteq> set (vectorstore_cache s)"
    by (auto simp add: AList.delete_eq)
  with ok show ?thesis
    by (auto simp add: cache_ok_def delete_from_cache_def distinct_delete list_all_iff
             split: option.splits)
qed

lemma cache_ok_clear:
  "cache_ok (snd (clear_cache s))"
  by (simp add: cache_ok_def clear_cache_def)

lemma cache_ok_stats:
  "cache_ok s \<Longrightarrow> indexed_files (cache_stats s) = card (dom (map_of (vectorstore_cache s)))"
  by (simp add: cache_ok_def cache_stats_def dom_map_of_conv_image_fst distinct_card
           flip: set_map)


section \<open>Indexing\<close>

text \<open>
  C1, as amended. For every successful \<^verbatim>\<open>index_pdf\<close> call on an id not already
  present, the record stored under the id (appended to the cache) consists of the
  extracted text, which is not empty, the file name and the length of the text, and
  nothing else changes: no index is built or stored at indexing time. The call fails
  exactly when the upload is empty, the text extraction raises, or the extracted text is
  empty; its outcome does not depend on the chunker or on the index builder, so it never
  fails because chunking or index building would fail.
\<close>

theorem index_pdf_stores_text_only:
  assumes absent: "map_of (vectorstore_cache s) file_id = None"
  shows "(\<forall>r s'. index_pdf env file_id b fname s = (Inr r, s') \<longrightarrow>
            (\<exists>txt. extract_text_from_pdf env b = Inr txt \<and> txt \<noteq> [] \<and> b \<noteq> []
               \<and> r = \<lparr>resp_file_id = file_id, resp_file_name = fname,
                       resp_text_length = Some (length txt), already_indexed = False\<rparr>
               \<and> s' = s\<lparr>vectorstore_cache := vectorstore_cache s @
                        [(file_id, \<lparr>cached_text = txt, file_name = fname,
                                    text_length = length txt\<rparr>)]\<rparr>))
       \<and> ((\<exists>e. fst (index_pdf env file_id b fname s) = Inl e) \<longleftrightarrow>
            (b = [] \<or> (\<exists>e. extract_text_from_pdf env b = Inl e)
                    \<or> extract_text_from_pdf env b = Inr []))
       \<and> index_pdf (env\<lparr>split_text := sp, from_documents := fd\<rparr>) file_id b fname s
            = index_pdf env file_id b fname s"
proof (intro conjI allI impI)
  fix r s'
  assume ok: "index_pdf env file_id b fname s = (Inr r, s')"
  from ok absent obtain tx where
    ex: "extract_text_from_pdf env b = Inr tx" and ne: "tx \<noteq> []" and bne: "b \<noteq> []"
    by (auto simp add: index_pdf_unfold split: if_splits sum.splits)
  from ok absent ex ne bne show
    "\<exists>txt. extract_text_from_pdf env b = Inr txt \<and> txt \<noteq> [] \<and> b \<noteq> []
       \<and> r = \<lparr>resp_file_id = file_id, resp_file_name = fname,
               resp_text_length = Some (length txt), already_indexed = False\<rparr>
       \<and> s' = s\<lparr>vectorstore_cache := vectorstore_cache s @
                [(file_id, \<lparr>cached_text = txt, file_name = fname,
                            text_length = length txt\<rparr>)]\<rparr>"
    by (auto simp add: index_pdf_unfold update_absent)
next
  show "(\<exists>e. fst (index_pdf env file_id b fname s) = Inl e) \<longleftrightarrow>
          (b = [] \<or> (\<exists>e. extract_text_from_pdf env b = Inl e)
                  \<or> extract_text_from_pdf env b = Inr [])"
    using absent by (auto simp add: index_pdf_unfold split: sum.splits)
next
  show "index_pdf (env\<lparr>split_text := sp, from_documents := fd\<rparr>) file_id b fname s
          = index_pdf env file_id b fname s"
    by (simp add: index_pdf_unfold extract_env_update split: option.splits)
qed

text \<open>
  The amended C1 on a two-page document indexed into the empty cache, and on a damaged
  upload, which fails.
\<close>

theorem index_pdf_stores_text_only_witness:
  "map_of (vectorstore_cache empty_state) ''doc1'' = None
   \<and> index_pdf pdf_env ''doc1'' ''%PDF-1.4'' ''a.pdf'' empty_state =
       (Inr \<lparr>resp_file_id = ''doc1'', resp_file_name = ''a.pdf'',
             resp_text_length = Some 11, already_indexed = False\<rparr>, hello_state)
   \<and> extract_text_from_pdf pdf_env ''%PDF-1.4'' = Inr (''Hello'' @ NL @ ''world'')
   \<and> (\<exists>e. fst (index_pdf pdf_env ''doc1'' ''%PDF-bad'' ''a.pdf'' empty_state) = Inl e)"
proof -
  have absent: "map_of (vectorstore_cache empty_state) ''doc1'' = None"
    by (simp add: empty_state_def)
  have bad: "extract_text_from_pdf pdf_env ''%PDF-bad'' = Inl (LibraryError ''EOF marker not found'')"
    by (simp add: extract_text_from_pdf_def pdf_env_def)
  show ?thesis
    using index_pdf_stores_text_only [OF absent, of pdf_env "''%PDF-1.4''" "''a.pdf''"]
      index_pdf_stores_text_only [OF absent, of pdf_env "''%PDF-bad''" "''a.pdf''"]
      absent index_hello bad
    by (simp add: extract_hello)
qed

text \<open>
  C1 as stated fails: with the embedding provider unavailable, building the index from the
  text fails, yet indexing the document succeeds, stores the three-field record and makes
  no call to the index builder.
\<close>

theorem index_pdf_stores_text_only_counterexample:
  "index_pdf down_env ''doc1'' ''%PDF-1.4'' ''a.pdf'' empty_state =
     (Inr \<lparr>resp_file_id = ''doc1'', resp_file_name = ''a.pdf'',
           resp_text_length = Some 11, already_indexed = False\<rparr>, hello_state)
   \<and> from_documents_calls hello_state = []
   \<and> fst (create_faiss_index down_env (cached_text hello_entry) hello_state)
       = Inl (LibraryError ''embedding provider unavailable'')"
  by (simp add: index_pdf_unfold extract_text_from_pdf_def down_env_def pdf_env_def add_page_def
        strip_def isspace_def NL_def empty_state_def hello_state_def hello_entry_def
        create_faiss_index_def)

text \<open>
  C2, as amended. For every id not in the cache and every pair of \<^verbatim>\<open>index_pdf\<close>
  calls with that id, the first succeeding: the first call returns
  \<^verbatim>\<open>already_indexed = False\<close> and the text length of the record it stored; the
  second call, whatever its file name, its bytes and the collaborators, returns
  \<^verbatim>\<open>already_indexed = True\<close> when its upload is not empty and is rejected as an
  empty file when its upload has no bytes; in both cases it leaves the state, and with it
  the stored record and its text length, as it was.
\<close>

theorem index_pdf_twice:
  assumes absent: "map_of (vectorstore_cache s) file_id = None"
    and first: "index_pdf env file_id b1 n1 s = (Inr r1, s1)"
  shows "already_indexed r1 = False
       \<and> (\<exists>e. map_of (vectorstore_cache s1) file_id = Some e
              \<and> resp_text_length r1 = Some (text_length e))
       \<and> (b2 \<noteq> [] \<longrightarrow>
            index_pdf env2 file_id b2 n2 s1 =
              (Inr \<lparr>resp_file_id = file_id, resp_file_name = n2,
                    resp_text_length = None, already_indexed = True\<rparr>, s1))
       \<and> (b2 = [] \<longrightarrow>
            index_pdf env2 file_id b2 n2 s1 =
              (Inl (HTTPException 500 (str_exn (HTTPException 400 ''Empty file''))), s1))"
proof -
  from first absent obtain tx where
    r1: "r1 = \<lparr>resp_file_id = file_id, resp_file_name = n1,
               resp_text_length = Some (length tx), already_indexed = False\<rparr>"
    and s1: "s1 = s\<lparr>vectorstore_cache := AList.update file_id
               \<lparr>cached_text = tx, file_name = n1, text_length = length tx\<rparr>
               (vectorstore_cache s)\<rparr>"
    by (auto simp add: index_pdf_unfold split: if_splits sum.splits)
  have present: "map_of (vectorstore_cache s1) file_id
      = Some \<lparr>cached_text = tx, file_name = n1, text_length = length tx\<rparr>"
    by (simp add: s1 update_conv')
  show ?thesis
    using present by (simp add: r1 index_pdf_unfold)
qed

text \<open>The amended C2 on the two-page document, uploaded again under another name.\<close>

theorem index_pdf_twice_witness:
  "map_of (vectorstore_cache empty_state) ''doc1'' = None
   \<and> index_pdf pdf_env ''doc1'' ''%PDF-1.4'' ''a.pdf'' empty_state =
       (Inr \<lparr>resp_file_id = ''doc1'', resp_file_name = ''a.pdf'',
             resp_text_length = Some 11, already_indexed = False\<rparr>, hello_state)
   \<and> index_pdf pdf_env ''doc1'' ''%PDF-other'' ''b.pdf'' hello_state =
       (Inr \<lparr>resp_file_id = ''doc1'', resp_file_name = ''b.pdf'',
             resp_text_length = None, already_indexed = True\<rparr>, hello_state)
   \<and> map_of (vectorstore_cache hello_state) ''doc1'' = Some hello_entry
   \<and> text_length hello_entry = 11"
proof -
  have absent: "map_of (vectorstore_cache empty_state) ''doc1'' = None"
    by (simp add: empty_state_def)
  show ?thesis
    using index_pdf_twice [OF absent index_hello, of "''%PDF-other''" pdf_env "''b.pdf''"]
      absent index_hello
    by (simp add: hello_state_def hello_entry_def)
qed

text \<open>
  C2 as stated fails: after a successful first call, a second call with the same id and an
  upload of no bytes does not return \<^verbatim>\<open>already_indexed = True\<close>; it fails, because
  the empty-file guard precedes the cache lookup.
\<close>

theorem index_pdf_twice_counterexample:
  "index_pdf pdf_env ''doc1'' ''%PDF-1.4'' ''a.pdf'' empty_state =
     (Inr \<lparr>resp_file_id = ''doc1'', resp_file_name = ''a.pdf'',
           resp_text_length = Some 11, already_indexed = False\<rparr>, hello_state)
   \<and> index_pdf pdf_env ''doc1'' [] ''a.pdf'' hello_state =
       (Inl (HTTPException 500 ''400: Empty file''), hello_state)"
  using index_hello by (simp add: index_pdf_unfold str_nat.simps)

text \<open>
  C3, as amended. When the upload has no bytes or the text extracted from it is empty,
  \<^verbatim>\<open>index_pdf\<close> leaves the state, and so the cache and its statistics, exactly as
  they were. An upload of no bytes is rejected for every id (``Empty file''); an upload
  whose extracted text is empty is rejected (``Could not extract text from PDF'') when the
  id is not in the cache; when the id is already in the cache the call does not fail: it
  returns \<^verbatim>\<open>already_indexed = True\<close> without extracting the text.
\<close>

theorem index_pdf_empty_text:
  assumes empty: "b = [] \<or> extract_text_from_pdf env b = Inr []"
  shows "snd (index_pdf env file_id b fname s) = s
       \<and> cache_stats (snd (index_pdf env file_id b fname s)) = cache_stats s
       \<and> (b = [] \<longrightarrow>
            fst (index_pdf env file_id b fname s) =
              Inl (HTTPException 500 (str_exn (HTTPException 400 ''Empty file''))))
       \<and> (b \<noteq> [] \<longrightarrow> map_of (vectorstore_cache s) file_id = None \<longrightarrow>
            fst (index_pdf env file_id b fname s) =
              Inl (HTTPException 500
                     (str_exn (HTTPException 400 ''Could not extract text from PDF''))))
       \<and> (b \<noteq> [] \<longrightarrow> map_of (vectorstore_cache s) file_id \<noteq> None \<longrightarrow>
            fst (index_pdf env file_id b fname s) =
              Inr \<lparr>resp_file_id = file_id, resp_file_name = fname,
                   resp_text_length = None, already_indexed = True\<rparr>)"
  using empty by (auto simp add: index_pdf_unfold split: option.splits)

text \<open>The amended C3 on the blank document, uploaded under a new id.\<close>

theorem index_pdf_empty_text_witness:
  "extract_text_from_pdf pdf_env ''%PDF-blank'' = Inr []
   \<and> index_pdf pdf_env ''doc2'' ''%PDF-blank'' ''blank.pdf'' hello_state =
       (Inl (HTTPException 500 ''400: Could not extract text from PDF''), hello_state)
   \<and> cache_stats hello_state = \<lparr>indexed_files = 1, files = [(''doc1'', ''a.pdf'', 11)]\<rparr>"
proof -
  have absent: "map_of (vectorstore_cache hello_state) ''doc2'' = None"
    by (simp add: hello_state_def)
  have blank: "''%PDF-blank'' = [] \<or> extract_text_from_pdf pdf_env ''%PDF-blank'' = Inr []"
    by (simp add: extract_blank)
  have st: "cache_stats hello_state = \<lparr>indexed_files = 1, files = [(''doc1'', ''a.pdf'', 11)]\<rparr>"
    by (simp add: cache_stats_def hello_state_def hello_entry_def)
  show ?thesis
    using index_pdf_empty_text [OF blank, of "''doc2''" "''blank.pdf''" hello_state] absent st
    by (simp add: extract_blank str_nat.simps prod_eq_iff)
qed

text \<open>
  C3 as stated fails: for an id that is already cached, indexing a document whose text is
  empty succeeds with \<^verbatim>\<open>already_indexed = True\<close>.
\<close>

theorem index_pdf_empty_text_counterexample:
  "extract_text_from_pdf pdf_env ''%PDF-blank'' = Inr []
   \<and> index_pdf pdf_env ''doc1'' ''%PDF-blank'' ''blank.pdf'' hello_state =
       (Inr \<lparr>resp_file_id = ''doc1'', resp_file_name = ''blank.pdf'',
             resp_text_length = None, already_indexed = True\<rparr>, hello_state)"
  by (simp add: extract_blank index_pdf_unfold hello_state_def)


section \<open>Querying\<close>

text \<open>
  C4. For every id absent from the cache, \<^verbatim>\<open>query\<close> fails with the 404
  ``File not indexed'' for any query string and any chat history (parsed or not), and the
  state is unchanged.
\<close>

theorem query_not_indexed:
  "map_of (vectorstore_cache s) file_id = None \<Longrightarrow>
   query env file_id q chat_history s =
     (Inl (HTTPException 404 ''File not indexed. Call /index_pdf first.''), s)"
  by (simp add: query_def query_try_def)

text \<open>C4 on the empty cache, with a chat history that is not JSON.\<close>

theorem query_not_indexed_witness:
  "map_of (vectorstore_cache empty_state) ''doc1'' = None \<and>
   query pdf_env ''doc1'' ''What is this?'' ''not json'' empty_state =
     (Inl (HTTPException 404 ''File not indexed. Call /index_pdf first.''), empty_state)"
  using query_not_indexed [of empty_state "''doc1''" pdf_env "''What is this?''" "''not json''"]
  by (simp add: empty_state_def)

text \<open>
  C5, as amended. For an empty history the effective query is the query string verbatim.
  For a non-empty history it is the literal ``Previous conversation:'' and a newline, then
  the transcript (one entry per message in input order, separated by newlines, each
  ``User: '' followed by the content for the role \<^verbatim>\<open>user\<close> and ``Assistant: ''
  followed by the content for any other role), then two newlines, the literal
  ``Current question: '' and the query string.
\<close>

theorem full_query_shape:
  "full_query [] q = q
   \<and> full_query (m # ms) q =
       ''Previous conversation:'' @ NL @ format_line m
         @ concat (map (\<lambda>x. NL @ format_line x) ms)
         @ NL @ NL @ ''Current question: '' @ q
   \<and> format_line \<lparr>role = ''user'', content = c\<rparr> = ''User: '' @ c
   \<and> (r \<noteq> ''user'' \<longrightarrow> format_line \<lparr>role = r, content = c\<rparr> = ''Assistant: '' @ c)"
proof (intro conjI)
  show "full_query [] q = q"
    by (simp add: full_query_def)
  show "full_query (m # ms) q =
       ''Previous conversation:'' @ NL @ format_line m
         @ concat (map (\<lambda>x. NL @ format_line x) ms)
         @ NL @ NL @ ''Current question: '' @ q"
    by (simp add: full_query_def format_history_for_context_def join_Cons comp_def)
  show "format_line \<lparr>role = ''user'', content = c\<rparr> = ''User: '' @ c"
    by (simp add: format_line_def)
  show "r \<noteq> ''user'' \<longrightarrow> format_line \<lparr>role = r, content = c\<rparr> = ''Assistant: '' @ c"
    by (simp add: format_line_def)
qed

text \<open>The amended C5 on a history of two messages.\<close>

theorem full_query_shape_witness:
  "''assistant'' \<noteq> ''user''
   \<and> format_line \<lparr>role = ''assistant'', content = ''Hello.''\<rparr> = ''Assistant: Hello.''
   \<and> full_query [\<lparr>role = ''user'', content = ''Hi''\<rparr>,
                  \<lparr>role = ''assistant'', content = ''Hello.''\<rparr>] ''Why?''
       = ''Previous conversation:'' @ NL @ ''User: Hi'' @ NL @ ''Assistant: Hello.''
           @ NL @ NL @ ''Current question: Why?''"
  using full_query_shape [where q = "''Why?''" and m = "\<lparr>role = ''user'', content = ''Hi''\<rparr>"
      and ms = "[\<lparr>role = ''assistant'', content = ''Hello.''\<rparr>]"
      and r = "''assistant''" and c = "''Hello.''"]
  by (simp add: format_line_def)

text \<open>
  C5 as stated fails: the effective query is not the transcript prepended to the query;
  it starts with the heading ``Previous conversation:'', and the query is introduced by
  ``Current question: ''.
\<close>

theorem full_query_counterexample:
  "full_query [\<lparr>role = ''user'', content = ''hi''\<rparr>] ''q''
     = ''Previous conversation:'' @ NL @ ''User: hi'' @ NL @ NL @ ''Current question: q''
   \<and> format_history_for_context [\<lparr>role = ''user'', content = ''hi''\<rparr>] = ''User: hi''
   \<and> \<not> prefix (format_history_for_context [\<lparr>role = ''user'', content = ''hi''\<rparr>])
               (full_query [\<lparr>role = ''user'', content = ''hi''\<rparr>] ''q'')"
  by (simp add: full_query_def format_history_for_context_def format_line_def NL_def)

text \<open>
  C7. For every query on a cached id whose history parses, whose chain is built and whose
  chain invocation returns a result: when the result has no \<^verbatim>\<open>answer\<close> key the
  query returns the literal ``No answer found.'' instead of failing, and when the key is
  present the returned text is its value.
\<close>

theorem query_answer_fallback:
  assumes "map_of (vectorstore_cache s) file_id = Some cached"
    and "loads_messages env chat_history = Inr messages"
    and "create_pdf_chain env (cached_text cached) s = (Inr chain, s')"
    and "ainvoke env (vectorstore chain) (search_k chain) (full_query messages q) = Inr result"
  shows "(result ''answer'' = None \<longrightarrow>
            query env file_id q chat_history s = (Inr ''No answer found.'', s'))
       \<and> (\<forall>a. result ''answer'' = Some a \<longrightarrow>
            query env file_id q chat_history s = (Inr a, s'))"
  using assms by (simp add: query_def query_try_def)

text \<open>C7 with a chain whose result has no answer, and with one that echoes its input.\<close>

theorem query_answer_fallback_witness:
  "query silent_env ''doc1'' ''What is this?'' ''[]'' hello_state =
     (Inr ''No answer found.'',
      hello_state\<lparr>from_documents_calls := [[Document (''Hello'' @ NL @ ''world'')]]\<rparr>)
   \<and> query pdf_env ''doc1'' ''What is this?'' ''[]'' hello_state =
     (Inr ''What is this?'',
      hello_state\<lparr>from_documents_calls := [[Document (''Hello'' @ NL @ ''world'')]]\<rparr>)"
proof -
  have present: "map_of (vectorstore_cache hello_state) ''doc1'' = Some hello_entry"
    by (simp add: hello_state_def)
  have h1: "loads_messages silent_env ''[]'' = Inr []"
    and h2: "loads_messages pdf_env ''[]'' = Inr []"
    by (simp_all add: silent_env_def pdf_env_def)
  have c1: "create_pdf_chain silent_env (cached_text hello_entry) hello_state =
     (Inr \<lparr>vectorstore = [Document (''Hello'' @ NL @ ''world'')], search_k = 3\<rparr>,
      hello_state\<lparr>from_documents_calls := [[Document (''Hello'' @ NL @ ''world'')]]\<rparr>)"
    unfolding silent_env_def by (rule chain_hello)
  have c2: "create_pdf_chain pdf_env (cached_text hello_entry) hello_state =
     (Inr \<lparr>vectorstore = [Document (''Hello'' @ NL @ ''world'')], search_k = 3\<rparr>,
      hello_state\<lparr>from_documents_calls := [[Document (''Hello'' @ NL @ ''world'')]]\<rparr>)"
    using chain_hello [of "ainvoke pdf_env"] by simp
  have a1: "ainvoke silent_env
              (vectorstore \<lparr>vectorstore = [Document (''Hello'' @ NL @ ''world'')], search_k = 3\<rparr>)
              (search_k \<lparr>vectorstore = [Document (''Hello'' @ NL @ ''world'')], search_k = 3\<rparr>)
              (full_query [] ''What is this?'') = Inr Map.empty"
    by (simp add: silent_env_def)
  have a2: "ainvoke pdf_env
              (vectorstore \<lparr>vectorstore = [Document (''Hello'' @ NL @ ''world'')], search_k = 3\<rparr>)
              (search_k \<lparr>vectorstore = [Document (''Hello'' @ NL @ ''world'')], search_k = 3\<rparr>)
              (full_query [] ''What is this?'') = Inr [''answer'' \<mapsto> ''What is this?'']"
    by (simp add: pdf_env_def full_query_def)
  show ?thesis
    using query_answer_fallback [OF present h1 c1 a1]
      query_answer_fallback [OF present h2 c2 a2]
    by simp
qed

text \<open>
  C10, as amended. Every \<^verbatim>\<open>query\<close> call for a cached id whose chat history
  parses, with the API key set and at least one chunk split from the record's non-empty
  cached text, re-chunks that text and makes exactly one new call of the index builder
  on its chunks; the chain is run (with k = 3, on the effective query) on the vector store
  which that very call returns, and when the builder fails the query fails with it. Two
  such queries in a row make two builder calls. A call whose history does not parse, a
  call without an API key, and a call whose text gives no chunk fail before any index is
  built. No index is stored in the cache or shared between calls: \<^verbatim>\<open>query\<close> never
  changes the cache, \<^verbatim>\<open>index_pdf\<close> never calls the index builder and stores
  exactly the text, the file name and the text length, and the outcome of a query depends
  on the cached record only through its text.
\<close>

theorem query_builds_index_anew:
  assumes cached: "map_of (vectorstore_cache s) file_id = Some cached"
  shows "vectorstore_cache (snd (query env file_id q h s)) = vectorstore_cache s
   \<and> from_documents_calls (snd (index_pdf env new_id b fname s)) = from_documents_calls s
   \<and> (\<forall>tx. map_of (vectorstore_cache s) new_id = None \<longrightarrow> b \<noteq> [] \<longrightarrow>
         extract_text_from_pdf env b = Inr tx \<longrightarrow> tx \<noteq> [] \<longrightarrow>
         map_of (vectorstore_cache (snd (index_pdf env new_id b fname s))) new_id =
           Some \<lparr>cached_text = tx, file_name = fname, text_length = length tx\<rparr>)
   \<and> (\<forall>e. loads_messages env h = Inl e \<longrightarrow>
         query env file_id q h s =
           (Inl (query_except
                   (case e of
                      ValueError m \<Rightarrow> HTTPException 400 (''Invalid chat_history: '' @ m)
                    | _ \<Rightarrow> e)), s))
   \<and> (\<forall>messages. loads_messages env h = Inr messages \<longrightarrow>
         (OPENAI_API_KEY env = None \<or> OPENAI_API_KEY env = Some []) \<longrightarrow>
         query env file_id q h s = (Inl (HTTPException 500 ''OPENAI_API_KEY not found.''), s))
   \<and> (\<forall>messages key. loads_messages env h = Inr messages \<longrightarrow>
         OPENAI_API_KEY env = Some key \<longrightarrow> key \<noteq> [] \<longrightarrow>
           (cached_text cached = [] \<longrightarrow>
              query env file_id q h s =
                (Inl (HTTPException 500 ''Cannot create index from empty text.''), s))
         \<and> (cached_text cached \<noteq> [] \<longrightarrow> split_text env (cached_text cached) = [] \<longrightarrow>
              query env file_id q h s =
                (Inl (HTTPException 500 ''Text was too short to be split into chunks.''), s))
         \<and> (cached_text cached \<noteq> [] \<longrightarrow> split_text env (cached_text cached) \<noteq> [] \<longrightarrow>
              query env file_id q h s =
                (case from_documents env (map Document (split_text env (cached_text cached))) of
                   Inl e \<Rightarrow> Inl (query_except e)
                 | Inr vs \<Rightarrow>
                     (case ainvoke env vs 3 (full_query messages q) of
                        Inl e \<Rightarrow> Inl (query_except e)
                      | Inr result \<Rightarrow>
                          Inr (case result ''answer'' of
                                 Some a \<Rightarrow> a
                               | None \<Rightarrow> ''No answer found.'')),
                 s\<lparr>from_documents_calls := from_documents_calls s @
                      [map Document (split_text env (cached_text cached))]\<rparr>)
            \<and> (\<forall>messages2. loads_messages env h2 = Inr messages2 \<longrightarrow>
                 from_documents_calls
                   (snd (query env file_id q2 h2 (snd (query env file_id q h s)))) =
                 from_documents_calls s @
                   [map Document (split_text env (cached_text cached)),
                    map Document (split_text env (cached_text cached))])))
   \<and> (\<forall>(s2 :: state) cached2. map_of (vectorstore_cache s2) file_id = Some cached2 \<longrightarrow>
         cached_text cached2 = cached_text cached \<longrightarrow>
         fst (query env file_id q h s2) = fst (query env file_id q h s))"
proof (intro conjI allI impI)
  show "vectorstore_cache (snd (query env file_id q h s)) = vectorstore_cache s"
    by (rule query_cache)
  show "from_documents_calls (snd (index_pdf env new_id b fname s)) = from_documents_calls s"
    by (rule index_pdf_calls)
next
  fix tx
  assume "map_of (vectorstore_cache s) new_id = None" "b \<noteq> []"
    "extract_text_from_pdf env b = Inr tx" "tx \<noteq> []"
  then show "map_of (vectorstore_cache (snd (index_pdf env new_id b fname s))) new_id =
           Some \<lparr>cached_text = tx, file_name = fname, text_length = length tx\<rparr>"
    by (simp add: index_pdf_unfold update_conv')
next
  fix e assume "loads_messages env h = Inl e"
  then show "query env file_id q h s =
           (Inl (query_except
                   (case e of
                      ValueError m \<Rightarrow> HTTPException 400 (''Invalid chat_history: '' @ m)
                    | _ \<Rightarrow> e)), s)"
    by (simp add: query_cached [OF cached])
next
  fix messages
  assume "loads_messages env h = Inr messages"
    "OPENAI_API_KEY env = None \<or> OPENAI_API_KEY env = Some []"
  then show "query env file_id q h s = (Inl (HTTPException 500 ''OPENAI_API_KEY not found.''), s)"
    by (simp add: query_cached [OF cached])
next
  fix messages key
  assume a: "loads_messages env h = Inr messages" "OPENAI_API_KEY env = Some key" "key \<noteq> []"
  {
    assume "cached_text cached = []"
    with a show "query env file_id q h s =
                (Inl (HTTPException 500 ''Cannot create index from empty text.''), s)"
      by (simp add: query_cached [OF cached])
  }
  {
    assume "cached_text cached \<noteq> []" "split_text env (cached_text cached) = []"
    with a show "query env file_id q h s =
                (Inl (HTTPException 500 ''Text was too short to be split into chunks.''), s)"
      by (simp add: query_cached [OF cached])
  }
  {
    assume t: "cached_text cached \<noteq> []" "split_text env (cached_text cached) \<noteq> []"
    with a show one: "query env file_id q h s =
                (case from_documents env (map Document (split_text env (cached_text cached))) of
                   Inl e \<Rightarrow> Inl (query_except e)
                 | Inr vs \<Rightarrow>
                     (case ainvoke env vs 3 (full_query messages q) of
                        Inl e \<Rightarrow> Inl (query_except e)
                      | Inr result \<Rightarrow>
                          Inr (case result ''answer'' of
                                 Some a \<Rightarrow> a
                               | None \<Rightarrow> ''No answer found.'')),
                 s\<lparr>from_documents_calls := from_documents_calls s @
                      [map Document (split_text env (cached_text cached))]\<rparr>)"
      by (simp add: query_cached [OF cached])
    fix messages2 assume a2: "loads_messages env h2 = Inr messages2"
    have still: "map_of (vectorstore_cache (snd (query env file_id q h s))) file_id = Some cached"
      using cached by (simp add: query_cache)
    show "from_documents_calls
                   (snd (query env file_id q2 h2 (snd (query env file_id q h s)))) =
                 from_documents_calls s @
                   [map Document (split_text env (cached_text cached)),
                    map Document (split_text env (cached_text cached))]"
      using a a2 t by (simp add: query_cached [OF still]) (simp add: one)
  }
next
  fix s2 :: state and cached2
  assume other: "map_of (vectorstore_cache s2) file_id = Some cached2"
    and same: "cached_text cached2 = cached_text cached"
  show "fst (query env file_id q h s2) = fst (query env file_id q h s)"
    by (rule query_fst_text [OF cached other same])
qed

text \<open>
  The amended C10 on the cached two-page document: two queries in a row, and a query
  whose chat history is not JSON.
\<close>

theorem query_builds_index_anew_witness:
  "map_of (vectorstore_cache hello_state) ''doc1'' = Some hello_entry
   \<and> query pdf_env ''doc1'' ''What?'' ''[]'' hello_state =
       (Inr ''What?'',
        hello_state\<lparr>from_documents_calls := [[Document (''Hello'' @ NL @ ''world'')]]\<rparr>)
   \<and> from_documents_calls
        (snd (query pdf_env ''doc1'' ''Why?'' ''[]''
               (snd (query pdf_env ''doc1'' ''What?'' ''[]'' hello_state))))
       = [[Document (''Hello'' @ NL @ ''world'')], [Document (''Hello'' @ NL @ ''world'')]]
   \<and> vectorstore_cache (snd (query pdf_env ''doc1'' ''What?'' ''[]'' hello_state))
       = [(''doc1'', hello_entry)]
   \<and> query pdf_env ''doc1'' ''What?'' ''not json'' hello_state =
       (Inl (HTTPException 400 ''Invalid chat_history: bad json''), hello_state)"
proof -
  have present: "map_of (vectorstore_cache hello_state) ''doc1'' = Some hello_entry"
    by (simp add: hello_state_def)
  have h: "loads_messages pdf_env ''[]'' = Inr []"
    and bad: "loads_messages pdf_env ''not json'' = Inl (ValueError ''bad json'')"
    and k: "OPENAI_API_KEY pdf_env = Some ''sk-test''" "''sk-test'' \<noteq> []"
    and t: "cached_text hello_entry \<noteq> []"
    and c: "split_text pdf_env (cached_text hello_entry) = [''Hello'' @ NL @ ''world'']"
    and f: "from_documents pdf_env [Document (''Hello'' @ NL @ ''world'')]
              = Inr [Document (''Hello'' @ NL @ ''world'')]"
    and a: "ainvoke pdf_env [Document (''Hello'' @ NL @ ''world'')] 3 (full_query [] ''What?'')
              = Inr [''answer'' \<mapsto> ''What?'']"
    by (simp_all add: pdf_env_def hello_entry_def full_query_def)
  have calls: "from_documents_calls hello_state = []"
    and entries: "vectorstore_cache hello_state = [(''doc1'', hello_entry)]"
    by (simp_all add: hello_state_def)
  note good = query_builds_index_anew [OF present, where env = pdf_env and q = "''What?''"
        and h = "''[]''" and ?h2.0 = "''[]''" and ?q2.0 = "''Why?''"
        and new_id = "''doc2''" and b = "''%PDF-1.4''" and fname = "''b.pdf''"]
  note rejected = query_builds_index_anew [OF present, where env = pdf_env and q = "''What?''"
        and h = "''not json''" and ?h2.0 = "''[]''" and ?q2.0 = "''Why?''"
        and new_id = "''doc2''" and b = "''%PDF-1.4''" and fname = "''b.pdf''"]
  have c': "split_text pdf_env (cached_text hello_entry) \<noteq> []"
    by (simp add: c)
  have run': "query pdf_env ''doc1'' ''What?'' ''[]'' hello_state =
      (case from_documents pdf_env (map Document (split_text pdf_env (cached_text hello_entry))) of
         Inl e \<Rightarrow> Inl (query_except e)
       | Inr vs \<Rightarrow>
           (case ainvoke pdf_env vs 3 (full_query [] ''What?'') of
              Inl e \<Rightarrow> Inl (query_except e)
            | Inr result \<Rightarrow>
                Inr (case result ''answer'' of
                       Some a \<Rightarrow> a
                     | None \<Rightarrow> ''No answer found.'')),
       hello_state\<lparr>from_documents_calls := from_documents_calls hello_state @
            [map Document (split_text pdf_env (cached_text hello_entry))]\<rparr>)"
    using good h k t c' by blast
  have run: "query pdf_env ''doc1'' ''What?'' ''[]'' hello_state =
       (Inr ''What?'',
        hello_state\<lparr>from_documents_calls := [[Document (''Hello'' @ NL @ ''world'')]]\<rparr>)"
    using f a by (simp add: run' c calls)
  have twice': "from_documents_calls
        (snd (query pdf_env ''doc1'' ''Why?'' ''[]''
               (snd (query pdf_env ''doc1'' ''What?'' ''[]'' hello_state))))
       = from_documents_calls hello_state @
           [map Document (split_text pdf_env (cached_text hello_entry)),
            map Document (split_text pdf_env (cached_text hello_entry))]"
    using good h k t c' by blast
  have twice: "from_documents_calls
        (snd (query pdf_env ''doc1'' ''Why?'' ''[]''
               (snd (query pdf_env ''doc1'' ''What?'' ''[]'' hello_state))))
       = [[Document (''Hello'' @ NL @ ''world'')], [Document (''Hello'' @ NL @ ''world'')]]"
    by (simp add: twice' c calls)
  have kept: "vectorstore_cache (snd (query pdf_env ''doc1'' ''What?'' ''[]'' hello_state))
       = [(''doc1'', hello_entry)]"
    using good entries by simp
  have no: "query pdf_env ''doc1'' ''What?'' ''not json'' hello_state =
       (Inl (HTTPException 400 ''Invalid chat_history: bad json''), hello_state)"
    using rejected bad by (simp add: query_except_def)
  show ?thesis
    using present run twice kept no by simp
qed

text \<open>
  C10 as stated fails: a query for a cached id whose chat history does not parse is
  rejected without any index being built, and with the embedding provider unavailable
  the builder is called but no index comes into being and the query fails.
\<close>

theorem query_builds_index_anew_counterexample:
  "map_of (vectorstore_cache hello_state) ''doc1'' = Some hello_entry
   \<and> query pdf_env ''doc1'' ''What?'' ''not json'' hello_state =
       (Inl (HTTPException 400 ''Invalid chat_history: bad json''), hello_state)
   \<and> from_documents_calls hello_state = []
   \<and> query down_env ''doc1'' ''What?'' ''[]'' hello_state =
       (Inl (HTTPException 500 ''embedding provider unavailable''),
        hello_state\<lparr>from_documents_calls := [[Document (''Hello'' @ NL @ ''world'')]]\<rparr>)"
proof -
  have present: "map_of (vectorstore_cache hello_state) ''doc1'' = Some hello_entry"
    by (simp add: hello_state_def)
  have "query pdf_env ''doc1'' ''What?'' ''not json'' hello_state =
       (Inl (HTTPException 400 ''Invalid chat_history: bad json''), hello_state)"
    by (subst query_cached [OF present]) (simp add: pdf_env_def query_except_def)
  moreover have "from_documents_calls hello_state = []"
    by (simp add: hello_state_def)
  moreover have "query down_env ''doc1'' ''What?'' ''[]'' hello_state =
       (Inl (HTTPException 500 ''embedding provider unavailable''),
        hello_state\<lparr>from_documents_calls := [[Document (''Hello'' @ NL @ ''world'')]]\<rparr>)"
    by (subst query_cached [OF present])
       (simp add: pdf_env_def down_env_def query_except_def hello_entry_def hello_state_def)
  ultimately show ?thesis using present by simp
qed


section \<open>Removing and clearing\<close>

text \<open>
  C8. For every id, \<^verbatim>\<open>delete_from_cache\<close> fails with the 404 ``File not found in
  cache'' when the id is absent from the cache. When the id is present it deletes that
  record and no other, and returns the message naming the removed record's file name;
  afterwards the id is absent: a query for it fails with the 404 ``File not indexed'',
  and deleting it again fails.
\<close>

theorem delete_from_cache_spec:
  "(map_of (vectorstore_cache s) file_id = None \<longrightarrow>
      delete_from_cache file_id s = (Inl (HTTPException 404 ''File not found in cache''), s))
   \<and> (\<forall>info. map_of (vectorstore_cache s) file_id = Some info \<longrightarrow>
        fst (delete_from_cache file_id s) = Inr (''Removed '' @ file_name info @ '' from cache'')
      \<and> vectorstore_cache (snd (delete_from_cache file_id s))
          = AList.delete file_id (vectorstore_cache s)
      \<and> from_documents_calls (snd (delete_from_cache file_id s)) = from_documents_calls s
      \<and> map_of (vectorstore_cache (snd (delete_from_cache file_id s))) file_id = None
      \<and> (\<forall>k. k \<noteq> file_id \<longrightarrow>
            map_of (vectorstore_cache (snd (delete_from_cache file_id s))) k
              = map_of (vectorstore_cache s) k)
      \<and> query env file_id q chat_history (snd (delete_from_cache file_id s))
          = (Inl (HTTPException 404 ''File not indexed. Call /index_pdf first.''),
             snd (delete_from_cache file_id s))
      \<and> fst (delete_from_cache file_id (snd (delete_from_cache file_id s)))
          = Inl (HTTPException 404 ''File not found in cache''))"
  by (auto simp add: delete_from_cache_def query_def query_try_def delete_conv)

text \<open>C8 on the cache holding one document, and on the empty cache.\<close>

theorem delete_from_cache_spec_witness:
  "delete_from_cache ''doc1'' hello_state = (Inr ''Removed a.pdf from cache'', empty_state)
   \<and> delete_from_cache ''doc1'' empty_state
       = (Inl (HTTPException 404 ''File not found in cache''), empty_state)
   \<and> query pdf_env ''doc1'' ''What is this?'' ''[]'' empty_state
       = (Inl (HTTPException 404 ''File not indexed. Call /index_pdf first.''), empty_state)"
proof -
  have present: "map_of (vectorstore_cache hello_state) ''doc1'' = Some hello_entry"
    by (simp add: hello_state_def)
  have absent: "map_of (vectorstore_cache empty_state) ''doc1'' = None"
    by (simp add: empty_state_def)
  have del: "hello_state\<lparr>vectorstore_cache := AList.delete ''doc1'' (vectorstore_cache hello_state)\<rparr>
      = empty_state"
    by (simp add: hello_state_def empty_state_def)
  have run: "delete_from_cache ''doc1'' hello_state = (Inr ''Removed a.pdf from cache'', empty_state)"
    by (simp add: delete_from_cache_def hello_state_def empty_state_def hello_entry_def)
  show ?thesis
    using delete_from_cache_spec [of hello_state "''doc1''" pdf_env "''What is this?''" "''[]''"]
      delete_from_cache_spec [of empty_state "''doc1''" pdf_env "''What is this?''" "''[]''"]
      present absent run
    by simp
qed

text \<open>
  C9. For every cache state, \<^verbatim>\<open>clear_cache\<close> removes all entries and reports the
  number of entries the cache held (in its message), and \<^verbatim>\<open>cache_stats\<close>
  immediately afterwards reports a count of 0 and an empty list of files.
\<close>

theorem clear_cache_empties:
  "clear_cache s =
     (''Cleared '' @ str_nat (length (vectorstore_cache s)) @ '' files from cache'',
      s\<lparr>vectorstore_cache := []\<rparr>)
   \<and> vectorstore_cache (snd (clear_cache s)) = []
   \<and> cache_stats (snd (clear_cache s)) = \<lparr>indexed_files = 0, files = []\<rparr>"
  by (simp add: clear_cache_def cache_stats_def)

end
